theory Spec2Isabelle
  imports Main "HOL-Library.Word"
begin

unbundle bit_operations_syntax

section \<open>Rate-limited token issuance: byte strings, outcomes, origin-name padding\<close>

text \<open>
  The Go source works on byte slices and on strings, which in Go are immutable byte
  sequences; both are lists of 8-bit words here. A Go function either returns its results or
  panics (a slice expression out of range, \<open>BytesOrPanic\<close>); \<open>Panics\<close> is that second outcome.
\<close>

type_synonym byte = "8 word"
type_synonym bytes = "byte list"

datatype 'a outcome = Returns 'a | Panics

text \<open>
  The error values of the source: the two built by \<open>fmt.Errorf\<close> in \<open>Evaluate\<close>, and the
  errors handed up unchanged from the external packages, which the source never inspects.
  An error of an external package is an opaque number; it is never one of the two values the
  source builds itself.
\<close>

type_synonym ext_error = nat

datatype error =
    UnknownOrigin bytes
  | InvalidRequestSignature
  | External ext_error

definition ascii :: "string \<Rightarrow> bytes" where
  "ascii s = map of_char s"

text \<open>The package's own \<open>max\<close> on \<open>int\<close>; the sizes it is applied to are never negative.\<close>

definition go_max :: "nat \<Rightarrow> nat \<Rightarrow> nat" where
  "go_max a b = (if a > b then a else b)"

text \<open>
  Go's \<open>%\<close> on \<open>int\<close> truncates towards zero, so the remainder has the sign of the
  dividend: \<open>(-1) % 32 = -1\<close>, where HOL's \<open>mod\<close> gives \<open>31\<close>.
\<close>

definition go_rem :: "int \<Rightarrow> int \<Rightarrow> int" where
  "go_rem a b = sgn a * (\<bar>a\<bar> mod \<bar>b\<bar>)"

text \<open>
  \<open>padOriginName\<close>: \<open>N := 31 - ((len(originName) - 1) % 32)\<close>, then \<open>N\<close> zero bytes are
  appended. \<open>N\<close> lies between 0 and 32, so \<open>make([]byte, N)\<close> never panics.
\<close>

definition padOriginName :: "bytes \<Rightarrow> bytes" where
  "padOriginName originName =
     (let N = 31 - go_rem (int (length originName) - 1) 32
      in originName @ replicate (nat N) 0)"

text \<open>
  \<open>unpadOriginName\<close>: \<open>lastNonZero\<close> starts at \<open>len - 1\<close> and walks down over zero bytes.
  The index expression \<open>paddedOriginName[lastNonZero]\<close> panics out of range in Go, which the
  loop writes out; \<open>unpadOriginName_returns\<close> below shows that this branch is never taken.
\<close>

function unpad_loop :: "bytes \<Rightarrow> int \<Rightarrow> bytes outcome" where
  "unpad_loop paddedOriginName lastNonZero =
     (if lastNonZero < 0 then Returns []
      else if int (length paddedOriginName) \<le> lastNonZero then Panics
      else if paddedOriginName ! nat lastNonZero \<noteq> 0
        then Returns (take (nat (lastNonZero + 1)) paddedOriginName)
      else unpad_loop paddedOriginName (lastNonZero - 1))"
  by pat_completeness auto
termination
  by (relation "measure (\<lambda>(p, k). nat (k + 1))") auto

definition unpadOriginName :: "bytes \<Rightarrow> bytes outcome" where
  "unpadOriginName paddedOriginName =
     unpad_loop paddedOriginName (int (length paddedOriginName) - 1)"

declare unpad_loop.simps [simp del]


section \<open>The wire codec of \<open>OriginTokenRequest\<close>\<close>

text \<open>
  The pieces of \<open>cryptobyte\<close> the source uses. A \<open>Builder\<close> appends big-endian integers and
  byte strings; a \<open>String\<close> is read from the front, and a read of \<open>n\<close> bytes fails when
  fewer than \<open>n\<close> are left, consuming nothing.
\<close>

definition AddUint8 :: "byte \<Rightarrow> bytes" where
  "AddUint8 v = [v]"

definition AddUint16 :: "16 word \<Rightarrow> bytes" where
  "AddUint16 v = [ucast (drop_bit 8 v), ucast v]"

definition String_read :: "bytes \<Rightarrow> nat \<Rightarrow> (bytes \<times> bytes) option" where
  "String_read s n = (if length s < n then None else Some (take n s, drop n s))"

definition prefix_length :: "bytes \<Rightarrow> 32 word" where
  "prefix_length lenBytes = foldl (\<lambda>len b. push_bit 8 len OR ucast b) 0 lenBytes"

definition ReadUint16LengthPrefixed :: "bytes \<Rightarrow> (bytes \<times> bytes) option" where
  "ReadUint16LengthPrefixed s =
     (case String_read s 2 of
        None \<Rightarrow> None
      | Some (lenBytes, s') \<Rightarrow> String_read s' (unat (prefix_length lenBytes)))"

record OriginTokenRequest =
  raw :: "bytes option"
  blindedMsg :: bytes
  requestKey :: bytes
  paddedOrigin :: bytes

text \<open>The zero value \<open>OriginTokenRequest{}\<close>: every slice is nil.\<close>

definition OriginTokenRequest_zero :: OriginTokenRequest where
  "OriginTokenRequest_zero =
     \<lparr>raw = None, blindedMsg = [], requestKey = [], paddedOrigin = []\<rparr>"

text \<open>
  \<open>Marshal\<close> returns the cached encoding when there is one and caches the one it builds.
  \<open>AddUint16LengthPrefixed\<close> records an error in the builder when the child is longer than
  65535 bytes, and \<open>BytesOrPanic\<close> then panics.
\<close>

definition Marshal :: "OriginTokenRequest \<Rightarrow> (bytes \<times> OriginTokenRequest) outcome" where
  "Marshal r =
     (case raw r of
        Some b \<Rightarrow> Returns (b, r)
      | None \<Rightarrow>
          if 65535 < length (paddedOrigin r) then Panics
          else
            let b = blindedMsg r @ requestKey r
                      @ AddUint16 (of_nat (length (paddedOrigin r))) @ paddedOrigin r
            in Returns (b, r\<lparr>raw := Some b\<rparr>))"

text \<open>
  \<open>Unmarshal\<close> writes each field into the receiver as soon as it is read, so the receiver
  after a failed call keeps the fields read so far; the result is the boolean and the receiver.
\<close>

definition Unmarshal :: "OriginTokenRequest \<Rightarrow> bytes \<Rightarrow> bool \<times> OriginTokenRequest" where
  "Unmarshal r data =
     (case String_read data 256 of
        None \<Rightarrow> (False, r)
      | Some (v1, s1) \<Rightarrow>
          let r1 = r\<lparr>blindedMsg := v1\<rparr> in
          (case String_read s1 49 of
             None \<Rightarrow> (False, r1)
           | Some (v2, s2) \<Rightarrow>
               let r2 = r1\<lparr>requestKey := v2\<rparr> in
               (case ReadUint16LengthPrefixed s2 of
                  None \<Rightarrow> (False, r2)
                | Some (paddedOriginName, s3) \<Rightarrow>
                    (True, r2\<lparr>paddedOrigin := paddedOriginName\<rparr>))))"

section \<open>The external packages\<close>

text \<open>
  The HPKE cipher suite is a struct of three interface values; its methods are the fields of
  a record. Sizes are Go \<open>int\<close>s that are never negative.
\<close>

record AEAD_cipher =
  cipher_Seal :: "bytes \<Rightarrow> bytes \<Rightarrow> bytes \<Rightarrow> bytes"
  cipher_Open :: "bytes \<Rightarrow> bytes \<Rightarrow> bytes \<Rightarrow> ext_error + bytes"

record CipherSuite =
  KEM_ID :: "16 word"
  KEM_PublicKeySize :: nat
  KDF_ID :: "16 word"
  KDF_Extract :: "bytes \<Rightarrow> bytes \<Rightarrow> bytes"
  KDF_Expand :: "bytes \<Rightarrow> bytes \<Rightarrow> nat \<Rightarrow> bytes"
  AEAD_ID :: "16 word"
  AEAD_KeySize :: nat
  AEAD_NonceSize :: nat
  AEAD_New :: "bytes \<Rightarrow> ext_error + AEAD_cipher"

record SenderContext =
  sender_Seal :: "bytes \<Rightarrow> bytes \<Rightarrow> bytes"
  sender_Export :: "bytes \<Rightarrow> nat \<Rightarrow> bytes"

record ReceiverContext =
  receiver_Open :: "bytes \<Rightarrow> bytes \<Rightarrow> ext_error + bytes"
  receiver_Export :: "bytes \<Rightarrow> nat \<Rightarrow> bytes"

text \<open>
  The name keys are declared in another file of the package; their fields are the ones the
  source reads and the composite literal in \<open>NewRateLimitedIssuer\<close> sets. The field \<open>id\<close> is \<open>key_id\<close> here, and the fields the
  private key shares with the public one carry the prefix \<open>private\<close>.
\<close>

record 'kem PublicNameKey =
  key_id :: byte
  suite :: CipherSuite
  publicKey :: 'kem

record 'kem PrivateNameKey =
  private_key_id :: byte
  private_suite :: CipherSuite
  private_publicKey :: 'kem
  privateKey :: 'kem

text \<open>
  Modelled from the spec: \<open>PrivateNameKey.Public()\<close>, which is declared in another file of
  the package. The spec has the private name key as the public name key plus the private KEM
  key.
\<close>

definition Public :: "'kem PrivateNameKey \<Rightarrow> 'kem PublicNameKey" where
  "Public k =
     \<lparr>key_id = private_key_id k, suite = private_suite k, publicKey = private_publicKey k\<rparr>"

record Token =
  TokenType :: "16 word"
  Nonce :: bytes
  Context :: bytes
  KeyID :: bytes
  Authenticator :: bytes

definition Token_zero :: Token where
  "Token_zero = \<lparr>TokenType = 0, Nonce = [], Context = [], KeyID = [], Authenticator = []\<rparr>"

datatype hash_alg = SHA256 | SHA384

fun hash_Size :: "hash_alg \<Rightarrow> nat" where
  "hash_Size SHA256 = 32"
| "hash_Size SHA384 = 48"

record PSSOptions =
  Hash :: hash_alg
  SaltLength :: nat

text \<open>
  A point of the curve is its pair of affine coordinates; \<open>elliptic.UnmarshalCompressed\<close>
  returns nil coordinates for an encoding it rejects, which is \<open>None\<close>. The source stores
  the coordinates in a public key without looking at them, so the functions of the \<open>ecdsa\<close>
  package receive a \<open>point option\<close>, and what they do with nil coordinates (return or panic)
  is theirs to say.

  The functions the source calls in other packages, and in other files of its own package,
  are the fields of \<open>library\<close>: the hashes, HKDF (\<open>hkdf.New\<close> takes the hash, the secret, the salt and the info, in this
  order, and gives the output keying material by position), HPKE setup (the sender's randomness
  is an argument), the curve and the \<open>ecdsa\<close> package, blind RSA, the token codec, the
  constant \<open>RateLimitedTokenType\<close> and the encoding of a public name key.
\<close>

type_synonym point = "int \<times> int"

record ('kem, 'rsa, 'ec) library =
  sha256_Sum256 :: "bytes \<Rightarrow> bytes"
  sha512_Sum384 :: "bytes \<Rightarrow> bytes"
  hkdf_New :: "hash_alg \<Rightarrow> bytes \<Rightarrow> bytes \<Rightarrow> bytes \<Rightarrow> nat \<Rightarrow> byte"
  hpke_SetupBaseS :: "CipherSuite \<Rightarrow> bytes \<Rightarrow> 'kem \<Rightarrow> bytes \<Rightarrow> ext_error + bytes \<times> SenderContext"
  hpke_SetupBaseR :: "CipherSuite \<Rightarrow> 'kem \<Rightarrow> bytes \<Rightarrow> bytes \<Rightarrow> ext_error + ReceiverContext"
  elliptic_UnmarshalCompressed :: "bytes \<Rightarrow> point option"
  elliptic_MarshalCompressed :: "point \<Rightarrow> bytes"
  ecdsa_CreateKey :: "bytes \<Rightarrow> ext_error + 'ec"
  ecdsa_GenerateKey :: "bytes \<Rightarrow> ext_error + 'ec"
  ecdsa_Verify :: "point option \<Rightarrow> bytes \<Rightarrow> int \<Rightarrow> int \<Rightarrow> bool outcome"
  ecdsa_BlindPublicKey :: "point option \<Rightarrow> 'ec \<Rightarrow> (ext_error + point) outcome"
  ecdsa_UnblindPublicKey :: "point option \<Rightarrow> 'ec \<Rightarrow> (ext_error + point) outcome"
  blindrsa_BlindSign :: "'rsa \<Rightarrow> bytes \<Rightarrow> ext_error + bytes"
  rsa_VerifyPSS :: "'rsa \<Rightarrow> hash_alg \<Rightarrow> bytes \<Rightarrow> bytes \<Rightarrow> PSSOptions \<Rightarrow> ext_error option"
  UnmarshalToken :: "bytes \<Rightarrow> ext_error + Token"
  AuthenticatorInput :: "Token \<Rightarrow> bytes"
  RateLimitedTokenType :: "16 word"
  PublicNameKey_Marshal :: "'kem PublicNameKey \<Rightarrow> bytes"

text \<open>
  The reader \<open>hkdf.New\<close> returns yields the output keying material from its start and
  refuses to go beyond 255 blocks of the hash. \<open>io.ReadFull\<close> fills a buffer of \<open>n\<close> bytes
  from it or returns the reader's error, number 0 here.
\<close>

record hkdf_reader =
  okm :: "nat \<Rightarrow> byte"
  entropy_limit :: nat

definition io_ReadFull :: "hkdf_reader \<Rightarrow> nat \<Rightarrow> ext_error + bytes" where
  "io_ReadFull reader n =
     (if entropy_limit reader < n then Inl 0 else Inr (map (okm reader) [0..<n]))"

text \<open>\<open>big.Int.SetBytes\<close>: the bytes as a big-endian unsigned integer.\<close>

definition SetBytes :: "bytes \<Rightarrow> int" where
  "SetBytes buf = foldl (\<lambda>a b. a * 256 + uint b) 0 buf"

text \<open>
  \<open>crypto/rand\<close> as the source sees it: \<open>rand.Read\<close> fills the buffer it is given, or
  returns an error.
\<close>

record entropy =
  rand_bytes :: "nat \<Rightarrow> byte"
  rand_err :: "ext_error option"

definition rand_Read :: "entropy \<Rightarrow> nat \<Rightarrow> ext_error + bytes" where
  "rand_Read rnd n =
     (case rand_err rnd of Some err \<Rightarrow> Inl err | None \<Rightarrow> Inr (map (rand_bytes rnd) [0..<n]))"

section \<open>The attester's index\<close>

definition computeIndex ::
  "('kem, 'rsa, 'ec) library \<Rightarrow> bytes \<Rightarrow> bytes \<Rightarrow> bytes option \<times> error option" where
  "computeIndex L clientKey indexKey =
     (let hkdf = \<lparr>okm = hkdf_New L SHA384 indexKey clientKey (ascii ''anon_issuer_origin_id''),
                  entropy_limit = 255 * hash_Size SHA384\<rparr>
      in case io_ReadFull hkdf (hash_Size SHA384) of
           Inl err \<Rightarrow> (None, Some (External err))
         | Inr clientOriginIndex \<Rightarrow> (Some clientOriginIndex, None))"

definition FinalizeIndex ::
  "('kem, 'rsa, 'ec) library \<Rightarrow> bytes \<Rightarrow> bytes \<Rightarrow> bytes \<Rightarrow>
   (bytes option \<times> error option) outcome" where
  "FinalizeIndex L clientKey blindEnc blindedRequestKeyEnc =
     (let blindedRequestKey = elliptic_UnmarshalCompressed L blindedRequestKeyEnc
      in case ecdsa_CreateKey L blindEnc of
           Inl err \<Rightarrow> Returns (None, Some (External err))
         | Inr blindKey \<Rightarrow>
             (case ecdsa_UnblindPublicKey L blindedRequestKey blindKey of
                Panics \<Rightarrow> Panics
              | Returns (Inl err) \<Rightarrow> Returns (None, Some (External err))
              | Returns (Inr indexKey) \<Rightarrow>
                  let indexKeyEnc = elliptic_MarshalCompressed L indexKey
                  in Returns (computeIndex L clientKey indexKeyEnc)))"

section \<open>Sealing and opening the origin token request\<close>

text \<open>
  The additional data both sides hand to HPKE, as the builder of
  \<open>encryptOriginTokenRequest\<close> assembles it. No field is length-prefixed, so
  \<open>BytesOrPanic\<close> cannot panic here.
\<close>

definition encrypt_aad ::
  "('kem, 'rsa, 'ec) library \<Rightarrow> 'kem PublicNameKey \<Rightarrow> byte \<Rightarrow> bytes" where
  "encrypt_aad L nameKey tokenKeyID =
     (let issuerKeyEnc = PublicNameKey_Marshal L nameKey;
          issuerKeyID = sha256_Sum256 L issuerKeyEnc
      in AddUint8 (key_id nameKey)
           @ AddUint16 (KEM_ID (suite nameKey))
           @ AddUint16 (KDF_ID (suite nameKey))
           @ AddUint16 (AEAD_ID (suite nameKey))
           @ AddUint16 (RateLimitedTokenType L)
           @ AddUint8 tokenKeyID
           @ issuerKeyID)"

text \<open>The same, as the builder of \<open>decryptOriginTokenRequest\<close> assembles it.\<close>

definition decrypt_aad ::
  "('kem, 'rsa, 'ec) library \<Rightarrow> 'kem PrivateNameKey \<Rightarrow> byte \<Rightarrow> bytes" where
  "decrypt_aad L nameKey tokenKeyID =
     (let issuerConfigID = sha256_Sum256 L (PublicNameKey_Marshal L (Public nameKey))
      in AddUint8 (private_key_id nameKey)
           @ AddUint16 (KEM_ID (private_suite nameKey))
           @ AddUint16 (KDF_ID (private_suite nameKey))
           @ AddUint16 (AEAD_ID (private_suite nameKey))
           @ AddUint16 (RateLimitedTokenType L)
           @ AddUint8 tokenKeyID
           @ issuerConfigID)"

text \<open>
  \<open>encryptOriginTokenRequest\<close> returns the name key identifier, the encrypted request and
  the exported secret, or an error; \<open>rnd\<close> is what \<open>SetupBaseS\<close> draws from \<open>rand.Reader\<close>.
\<close>

definition encryptOriginTokenRequest ::
  "('kem, 'rsa, 'ec) library \<Rightarrow> bytes \<Rightarrow> 'kem PublicNameKey \<Rightarrow> byte \<Rightarrow> bytes \<Rightarrow> bytes \<Rightarrow>
   bytes \<Rightarrow> (bytes option \<times> bytes option \<times> bytes option \<times> error option) outcome" where
  "encryptOriginTokenRequest L rnd nameKey tokenKeyID blindedMessage requestKey' originName =
     (let issuerKeyEnc = PublicNameKey_Marshal L nameKey;
          issuerKeyID = sha256_Sum256 L issuerKeyEnc
      in case hpke_SetupBaseS L (suite nameKey) rnd (publicKey nameKey) (ascii ''TokenRequest'') of
           Inl err \<Rightarrow> Returns (None, None, None, Some (External err))
         | Inr (enc, context) \<Rightarrow>
             let tokenRequest = \<lparr>raw = None, blindedMsg = blindedMessage,
                                  requestKey = requestKey',
                                  paddedOrigin = padOriginName originName\<rparr>
             in (case Marshal tokenRequest of
                   Panics \<Rightarrow> Panics
                 | Returns (input, _) \<Rightarrow>
                     let aad = encrypt_aad L nameKey tokenKeyID;
                         ct = sender_Seal context aad input;
                         encryptedTokenRequest = enc @ ct;
                         secret = sender_Export context (ascii ''OriginTokenResponse'')
                                    (AEAD_KeySize (suite nameKey))
                     in Returns (Some issuerKeyID, Some encryptedTokenRequest, Some secret, None)))"

text \<open>
  \<open>decryptOriginTokenRequest\<close>. The two slice expressions on \<open>encryptedTokenRequest\<close> are
  evaluated one after the other: the first is bounded by the capacity, the second by the
  length, so together they panic exactly when the request is shorter than the KEM public key.
  The function returns a request, a secret and an error, as in Go: in the branch where
  \<open>Unmarshal\<close> returns false, the error returned is the variable \<open>err\<close>, which is nil after
  the successful \<open>Open\<close>.
\<close>

definition decryptOriginTokenRequest ::
  "('kem, 'rsa, 'ec) library \<Rightarrow> 'kem PrivateNameKey \<Rightarrow> byte \<Rightarrow> bytes \<Rightarrow>
   (OriginTokenRequest \<times> bytes \<times> error option) outcome" where
  "decryptOriginTokenRequest L nameKey tokenKeyID encryptedTokenRequest =
     (let aad = decrypt_aad L nameKey tokenKeyID;
          n = KEM_PublicKeySize (private_suite nameKey)
      in if length encryptedTokenRequest < n then Panics
         else
           let enc = take n encryptedTokenRequest;
               ct = drop n encryptedTokenRequest
           in (case hpke_SetupBaseR L (private_suite nameKey) (privateKey nameKey) enc
                      (ascii ''TokenRequest'') of
                 Inl err \<Rightarrow> Returns (OriginTokenRequest_zero, [], Some (External err))
               | Inr context \<Rightarrow>
                   (case receiver_Open context aad ct of
                      Inl err \<Rightarrow> Returns (OriginTokenRequest_zero, [], Some (External err))
                    | Inr tokenRequestEnc \<Rightarrow>
                        (case Unmarshal OriginTokenRequest_zero tokenRequestEnc of
                           (False, _) \<Rightarrow> Returns (OriginTokenRequest_zero, [], None)
                         | (True, tokenRequest) \<Rightarrow>
                             let secret = receiver_Export context (ascii ''OriginTokenResponse'')
                                            (AEAD_KeySize (private_suite nameKey))
                             in Returns (tokenRequest, secret, None)))))"

section \<open>The issuer\<close>

record RateLimitedTokenRequest =
  tokenKeyID :: byte
  nameKeyID :: bytes
  encryptedTokenRequest :: bytes
  signature :: bytes

text \<open>
  The curve field is always \<open>elliptic.P384()\<close>; the source reads its bit size only. The
  issuer's field \<open>nameKey\<close> is \<open>issuer_nameKey\<close> here, the client's state has one too.
\<close>

definition P384_BitSize :: nat where
  "P384_BitSize = 384"

record ('kem, 'rsa, 'ec) RateLimitedIssuer =
  issuer_nameKey :: "'kem PrivateNameKey"
  tokenKey :: 'rsa
  originIndexKeys :: "bytes \<rightharpoonup> 'ec"

text \<open>
  \<open>AddOrigin\<close> is the one method that assigns into \<open>originIndexKeys\<close>; it returns its error
  and the issuer after the call. \<open>rnd\<close> is what \<open>GenerateKey\<close> draws from \<open>rand.Reader\<close>.
\<close>

definition AddOrigin ::
  "('kem, 'rsa, 'ec) library \<Rightarrow> bytes \<Rightarrow> bytes \<Rightarrow> ('kem, 'rsa, 'ec) RateLimitedIssuer \<Rightarrow>
   error option \<times> ('kem, 'rsa, 'ec) RateLimitedIssuer" where
  "AddOrigin L rnd origin i =
     (case ecdsa_GenerateKey L rnd of
        Inl err \<Rightarrow> (Some (External err), i)
      | Inr privateKey' \<Rightarrow>
          (None, i\<lparr>originIndexKeys := (originIndexKeys i)(origin \<mapsto> privateKey')\<rparr>))"

text \<open>
  The message the ECDSA signature covers, as the builder of \<open>Evaluate\<close> assembles it.
\<close>

definition signed_message ::
  "('kem, 'rsa, 'ec) library \<Rightarrow> RateLimitedTokenRequest \<Rightarrow> bytes" where
  "signed_message L req =
     AddUint16 (RateLimitedTokenType L) @ AddUint8 (tokenKeyID req) @ nameKeyID req
       @ encryptedTokenRequest req"

text \<open>
  \<open>Evaluate\<close> returns the encrypted token response, the encoded blinded request key and an
  error. The two slice expressions on \<open>req.signature\<close> panic, between them, exactly when the
  signature is shorter than \<open>scalarLen\<close>. The results of \<open>append\<close> are taken as values:
  where \<open>append\<close> writes into the backing array of the request, nothing the method reads
  afterwards lies there.
\<close>

definition Evaluate ::
  "('kem, 'rsa, 'ec) library \<Rightarrow> entropy \<Rightarrow> ('kem, 'rsa, 'ec) RateLimitedIssuer \<Rightarrow>
   RateLimitedTokenRequest \<Rightarrow> (bytes option \<times> bytes option \<times> error option) outcome" where
  "Evaluate L rnd i req =
     (case decryptOriginTokenRequest L (issuer_nameKey i) (tokenKeyID req)
             (encryptedTokenRequest req) of
        Panics \<Rightarrow> Panics
      | Returns (originTokenRequest, secret, Some err) \<Rightarrow> Returns (None, None, Some err)
      | Returns (originTokenRequest, secret, None) \<Rightarrow>
     (case unpadOriginName (paddedOrigin originTokenRequest) of
        Panics \<Rightarrow> Panics
      | Returns originName \<Rightarrow>
     (case originIndexKeys i originName of
        None \<Rightarrow> Returns (None, None, Some (UnknownOrigin originName))
      | Some originIndexKey \<Rightarrow>
     (let requestKey' = elliptic_UnmarshalCompressed L (requestKey originTokenRequest);
          scalarLen = (P384_BitSize + 7) div 8
      in if length (signature req) < scalarLen then Panics
         else
     (let r = SetBytes (take scalarLen (signature req));
          s = SetBytes (drop scalarLen (signature req));
          message = signed_message L req;
          digest = sha512_Sum384 L message
      in case ecdsa_Verify L requestKey' digest r s of
           Panics \<Rightarrow> Panics
         | Returns False \<Rightarrow> Returns (None, None, Some InvalidRequestSignature)
         | Returns True \<Rightarrow>
     (case ecdsa_BlindPublicKey L requestKey' originIndexKey of
        Panics \<Rightarrow> Panics
      | Returns (Inl err) \<Rightarrow> Returns (None, None, Some (External err))
      | Returns (Inr blindedRequestKey') \<Rightarrow>
     (let blindedRequestKeyEnc = elliptic_MarshalCompressed L blindedRequestKey'
      in case blindrsa_BlindSign L (tokenKey i) (blindedMsg originTokenRequest) of
           Inl err \<Rightarrow> Returns (None, None, Some (External err))
         | Inr blindSignature \<Rightarrow>
     (let st = private_suite (issuer_nameKey i);
          responseNonceLen = go_max (AEAD_KeySize st) (AEAD_NonceSize st)
      in case rand_Read rnd responseNonceLen of
           Inl err \<Rightarrow> Returns (None, None, Some (External err))
         | Inr responseNonce \<Rightarrow>
             if length (encryptedTokenRequest req) < KEM_PublicKeySize st then Panics
             else
     (let enc = take (KEM_PublicKeySize st) (encryptedTokenRequest req);
          salt = enc @ responseNonce;
          prk = KDF_Extract st salt secret;
          key = KDF_Expand st prk (ascii ''key'') (AEAD_KeySize st);
          nonce = KDF_Expand st prk (ascii ''nonce'') (AEAD_NonceSize st)
      in case AEAD_New st key of
           Inl err \<Rightarrow> Returns (None, None, Some (External err))
         | Inr cipher \<Rightarrow>
             let encryptedTokenResponse = responseNonce @ cipher_Seal cipher nonce blindSignature []
             in Returns (Some encryptedTokenResponse, Some blindedRequestKeyEnc, None))))))))))"

definition EvaluateWithoutCheck ::
  "('kem, 'rsa, 'ec) library \<Rightarrow> entropy \<Rightarrow> ('kem, 'rsa, 'ec) RateLimitedIssuer \<Rightarrow>
   RateLimitedTokenRequest \<Rightarrow> (bytes option \<times> bytes option \<times> error option) outcome" where
  "EvaluateWithoutCheck L rnd i req =
     (case decryptOriginTokenRequest L (issuer_nameKey i) (tokenKeyID req)
             (encryptedTokenRequest req) of
        Panics \<Rightarrow> Panics
      | Returns (originTokenRequest, secret, Some err) \<Rightarrow> Returns (None, None, Some err)
      | Returns (originTokenRequest, secret, None) \<Rightarrow>
     (case unpadOriginName (paddedOrigin originTokenRequest) of
        Panics \<Rightarrow> Panics
      | Returns originName \<Rightarrow>
     (case originIndexKeys i originName of
        None \<Rightarrow> Returns (None, None, Some (UnknownOrigin originName))
      | Some originIndexKey \<Rightarrow>
     (let requestKey' = elliptic_UnmarshalCompressed L (requestKey originTokenRequest)
      in case ecdsa_BlindPublicKey L requestKey' originIndexKey of
        Panics \<Rightarrow> Panics
      | Returns (Inl err) \<Rightarrow> Returns (None, None, Some (External err))
      | Returns (Inr blindedRequestKey') \<Rightarrow>
     (let blindedRequestKeyEnc = elliptic_MarshalCompressed L blindedRequestKey'
      in case blindrsa_BlindSign L (tokenKey i) (blindedMsg originTokenRequest) of
           Inl err \<Rightarrow> Returns (None, None, Some (External err))
         | Inr blindSignature \<Rightarrow>
     (let st = private_suite (issuer_nameKey i);
          responseNonceLen = go_max (AEAD_KeySize st) (AEAD_NonceSize st)
      in case rand_Read rnd responseNonceLen of
           Inl err \<Rightarrow> Returns (None, None, Some (External err))
         | Inr responseNonce \<Rightarrow>
             if length (encryptedTokenRequest req) < KEM_PublicKeySize st then Panics
             else
     (let enc = take (KEM_PublicKeySize st) (encryptedTokenRequest req);
          salt = enc @ responseNonce;
          prk = KDF_Extract st salt secret;
          key = KDF_Expand st prk (ascii ''key'') (AEAD_KeySize st);
          nonce = KDF_Expand st prk (ascii ''nonce'') (AEAD_NonceSize st)
      in case AEAD_New st key of
           Inl err \<Rightarrow> Returns (None, None, Some (External err))
         | Inr cipher \<Rightarrow>
             let encryptedTokenResponse = cipher_Seal cipher nonce blindSignature []
             in Returns (Some encryptedTokenResponse, Some blindedRequestKeyEnc, None))))))))"

text \<open>
  Both methods have a value receiver, but the map the receiver holds is shared with the
  caller. Neither method assigns into it: a call is its result and the issuer as it was.
\<close>

definition Evaluate_call ::
  "('kem, 'rsa, 'ec) library \<Rightarrow> entropy \<Rightarrow> RateLimitedTokenRequest \<Rightarrow>
   ('kem, 'rsa, 'ec) RateLimitedIssuer \<Rightarrow>
   (bytes option \<times> bytes option \<times> error option) outcome \<times> ('kem, 'rsa, 'ec) RateLimitedIssuer" where
  "Evaluate_call L rnd req i = (Evaluate L rnd i req, i)"

definition EvaluateWithoutCheck_call ::
  "('kem, 'rsa, 'ec) library \<Rightarrow> entropy \<Rightarrow> RateLimitedTokenRequest \<Rightarrow>
   ('kem, 'rsa, 'ec) RateLimitedIssuer \<Rightarrow>
   (bytes option \<times> bytes option \<times> error option) outcome \<times> ('kem, 'rsa, 'ec) RateLimitedIssuer" where
  "EvaluateWithoutCheck_call L rnd req i = (EvaluateWithoutCheck L rnd i req, i)"

section \<open>The client's finalization\<close>

record VerifierState =
  Finalize :: "bytes \<Rightarrow> ext_error + bytes"

record ('kem, 'rsa) RateLimitedTokenRequestState =
  tokenInput :: bytes
  blindedRequestKey :: bytes
  request :: RateLimitedTokenRequest
  encapSecret :: bytes
  encapEnc :: bytes
  nameKey :: "'kem PublicNameKey"
  verificationKey :: 'rsa
  verifier :: VerifierState

text \<open>
  The argument of \<open>FinalizeToken\<close> is a slice whose capacity matters: \<open>a[:n]\<close> is in range
  up to the capacity, \<open>a[n:]\<close> up to the length. \<open>elems\<close> are the \<open>len\<close> elements of the
  slice, \<open>spare\<close> the elements of its backing array from \<open>len\<close> up to \<open>cap\<close>.
\<close>

record slice =
  elems :: bytes
  spare :: bytes

definition slice_to :: "slice \<Rightarrow> nat \<Rightarrow> bytes outcome" where
  "slice_to a n =
     (if length (elems a) + length (spare a) < n then Panics
      else Returns (take n (elems a @ spare a)))"

definition slice_from :: "slice \<Rightarrow> nat \<Rightarrow> bytes outcome" where
  "slice_from a n = (if length (elems a) < n then Panics else Returns (drop n (elems a)))"

definition FinalizeToken ::
  "('kem, 'rsa, 'ec) library \<Rightarrow> ('kem, 'rsa) RateLimitedTokenRequestState \<Rightarrow> slice \<Rightarrow>
   (Token \<times> error option) outcome" where
  "FinalizeToken L s encryptedtokenResponse =
     (let st = suite (nameKey s);
          responseNonceLen = go_max (AEAD_KeySize st) (AEAD_NonceSize st)
      in case slice_to encryptedtokenResponse responseNonceLen of
           Panics \<Rightarrow> Panics
         | Returns responseNonce \<Rightarrow>
     (let salt = encapEnc s @ responseNonce;
          prk = KDF_Extract st salt (encapSecret s);
          key = KDF_Expand st prk (ascii ''key'') (AEAD_KeySize st);
          nonce = KDF_Expand st prk (ascii ''nonce'') (AEAD_NonceSize st)
      in case AEAD_New st key of
           Inl err \<Rightarrow> Returns (Token_zero, Some (External err))
         | Inr cipher \<Rightarrow>
     (case slice_from encryptedtokenResponse responseNonceLen of
        Panics \<Rightarrow> Panics
      | Returns ct \<Rightarrow>
     (case cipher_Open cipher nonce ct [] of
        Inl err \<Rightarrow> Returns (Token_zero, Some (External err))
      | Inr blindSignature \<Rightarrow>
     (case Finalize (verifier s) blindSignature of
        Inl err \<Rightarrow> Returns (Token_zero, Some (External err))
      | Inr signature' \<Rightarrow>
     (let tokenData = tokenInput s @ signature'
      in case UnmarshalToken L tokenData of
           Inl err \<Rightarrow> Returns (Token_zero, Some (External err))
         | Inr token \<Rightarrow>
     (let digest = sha512_Sum384 L (AuthenticatorInput L token)
      in case rsa_VerifyPSS L (verificationKey s) SHA384 digest (Authenticator token)
                \<lparr>Hash = SHA384, SaltLength = hash_Size SHA384\<rparr> of
           Some err \<Rightarrow> Returns (Token_zero, Some (External err))
         | None \<Rightarrow> Returns (token, None))))))))"

section \<open>A transparent instance of the external packages\<close>

text \<open>
  To run the model on concrete requests, the external packages are instantiated with
  functions that hide nothing: keys are byte strings or scalars, HPKE sealing is the
  identity, the AEAD appends its key as a tag and checks it on opening, the KDFs and the
  hashes concatenate and truncate, and the functions of the \<open>ecdsa\<close> package panic on nil
  coordinates. Only the sizes are the real ones (X25519, AES-128-GCM, P-384). The theorems
  below that hold for every library are applied to this one.
\<close>

definition plain_cipher :: "bytes \<Rightarrow> AEAD_cipher" where
  "plain_cipher key =
     \<lparr>cipher_Seal = (\<lambda>nonce pt aad. pt @ key),
      cipher_Open = (\<lambda>nonce ct aad.
         if length key \<le> length ct \<and> drop (length ct - length key) ct = key
         then Inr (take (length ct - length key) ct) else Inl 2)\<rparr>"

definition plain_suite :: CipherSuite where
  "plain_suite =
     \<lparr>KEM_ID = 0x0020, KEM_PublicKeySize = 32,
      KDF_ID = 0x0001,
      KDF_Extract = (\<lambda>salt ikm. rev salt @ ikm),
      KDF_Expand = (\<lambda>prk info n. take n (prk @ info @ replicate n 0)),
      AEAD_ID = 0x0001, AEAD_KeySize = 16, AEAD_NonceSize = 12,
      AEAD_New = (\<lambda>key. if length key = 16 then Inr (plain_cipher key)
                          else Inl 1)\<rparr>"

definition plain_library :: "(bytes, bytes, int) library" where
  "plain_library =
     \<lparr>sha256_Sum256 = (\<lambda>m. take 32 (m @ replicate 32 0)),
      sha512_Sum384 = (\<lambda>m. take 48 (m @ replicate 48 0)),
      hkdf_New = (\<lambda>h secret salt info n.
         if n < length (secret @ salt @ info) then (secret @ salt @ info) ! n else 0),
      hpke_SetupBaseS = (\<lambda>st rnd pk info.
         Inr (take 32 (rnd @ replicate 32 0),
              \<lparr>sender_Seal = (\<lambda>aad pt. pt), sender_Export = (\<lambda>label n. replicate n 9)\<rparr>)),
      hpke_SetupBaseR = (\<lambda>st sk enc info.
         Inr \<lparr>receiver_Open = (\<lambda>aad ct. Inr ct),
              receiver_Export = (\<lambda>label n. replicate n 9)\<rparr>),
      elliptic_UnmarshalCompressed = (\<lambda>b.
         if length b = 49 \<and> (take 1 b = [2] \<or> take 1 b = [3])
         then Some (SetBytes (drop 1 b), SetBytes (take 1 b) - 2) else None),
      elliptic_MarshalCompressed = (\<lambda>(x, y). of_int (2 + y) # replicate 48 (of_int x)),
      ecdsa_CreateKey = (\<lambda>b. Inr (SetBytes b)),
      ecdsa_GenerateKey = (\<lambda>rnd. Inr (SetBytes rnd)),
      ecdsa_Verify = (\<lambda>pk digest r s.
         case pk of None \<Rightarrow> Panics | Some _ \<Rightarrow> Returns (0 < r \<and> r = s)),
      ecdsa_BlindPublicKey = (\<lambda>pk k.
         case pk of None \<Rightarrow> Panics | Some (x, y) \<Rightarrow> Returns (Inr (k * x, y))),
      ecdsa_UnblindPublicKey = (\<lambda>pk k.
         case pk of None \<Rightarrow> Panics | Some (x, y) \<Rightarrow> Returns (Inr (x div k, y))),
      blindrsa_BlindSign = (\<lambda>key m. Inr (take 4 m)),
      rsa_VerifyPSS = (\<lambda>key h digest sig opts. None),
      UnmarshalToken = (\<lambda>b. Inr (Token_zero\<lparr>Authenticator := b\<rparr>)),
      AuthenticatorInput = (\<lambda>token. Nonce token),
      RateLimitedTokenType = 0x0003,
      PublicNameKey_Marshal = (\<lambda>k. key_id k # publicKey k)\<rparr>"

text \<open>
  The same instance with HPKE contexts that bind the additional data: sealing appends it to
  the plaintext, opening checks it and strips it.
\<close>

definition bound_library :: "(bytes, bytes, int) library" where
  "bound_library =
     plain_library
       \<lparr>hpke_SetupBaseS := (\<lambda>st rnd pk info.
           Inr (take 32 (rnd @ replicate 32 0),
                \<lparr>sender_Seal = (\<lambda>aad pt. pt @ aad),
                 sender_Export = (\<lambda>label n. replicate n 9)\<rparr>)),
        hpke_SetupBaseR := (\<lambda>st sk enc info.
           Inr \<lparr>receiver_Open = (\<lambda>aad ct.
                   if length aad \<le> length ct \<and> drop (length ct - length aad) ct = aad
                   then Inr (take (length ct - length aad) ct) else Inl 3),
                receiver_Export = (\<lambda>label n. replicate n 9)\<rparr>)\<rparr>"

definition plain_issuer :: "(bytes, bytes, int) RateLimitedIssuer" where
  "plain_issuer =
     \<lparr>issuer_nameKey = \<lparr>private_key_id = 0, private_suite = plain_suite,
                         private_publicKey = [5], privateKey = [6]\<rparr>,
      tokenKey = [7],
      originIndexKeys = [ascii ''a.example'' \<mapsto> 11]\<rparr>"

definition plain_entropy :: entropy where
  "plain_entropy = \<lparr>rand_bytes = (\<lambda>n. 0x2a), rand_err = None\<rparr>"

text \<open>
  A request for the registered origin: 32 bytes of encapsulated key, then the encoded
  \<open>OriginTokenRequest\<close> with a 32-byte padded origin; and one for an origin that is not
  registered.
\<close>

definition plain_request :: "bytes \<Rightarrow> RateLimitedTokenRequest" where
  "plain_request originName =
     \<lparr>tokenKeyID = 7, nameKeyID = replicate 32 0,
      encryptedTokenRequest =
        replicate 32 8 @ replicate 256 1 @ (2 # replicate 48 1) @ [0, 32]
          @ padOriginName originName,
      signature = replicate 96 1\<rparr>"

text \<open>
  The state a client holds for \<open>plain_request\<close>: the encapsulated key is the first 32 bytes
  of the encrypted request, the secret is what the sender's context exports.
\<close>

definition plain_state :: "(bytes, bytes) RateLimitedTokenRequestState" where
  "plain_state =
     \<lparr>tokenInput = [0, 3, 7],
      blindedRequestKey = 2 # replicate 48 1,
      request = plain_request (ascii ''a.example''),
      encapSecret = replicate 16 9,
      encapEnc = replicate 32 8,
      nameKey = Public (issuer_nameKey plain_issuer),
      verificationKey = [7],
      verifier = \<lparr>Finalize = (\<lambda>blindSignature. Inr blindSignature)\<rparr>\<rparr>"

section \<open>The specification's formulations\<close>

text \<open>
  The length the two bytes after the 305 bytes of fixed fields declare, and the two readings
  of "well-formed": the specification's (the input is exactly the three fields), and what the
  reads of \<open>Unmarshal\<close> need (the input starts with the three fields).
\<close>

definition declared_length :: "bytes \<Rightarrow> nat" where
  "declared_length data = unat (prefix_length (take 2 (drop 305 data)))"

definition spec_exact_layout :: "bytes \<Rightarrow> bool" where
  "spec_exact_layout data =
     (307 \<le> length data \<and> length data = 307 + declared_length data)"

definition reads_complete :: "bytes \<Rightarrow> bool" where
  "reads_complete data =
     (307 \<le> length data \<and> 307 + declared_length data \<le> length data)"

text \<open>
  The additional data as the specification writes it: the key id, the three suite
  identifiers and the token type as big-endian 16-bit integers (high byte, then low byte),
  the token key id, and the SHA-256 of the encoded public name key.
\<close>

definition u16_be :: "16 word \<Rightarrow> bytes" where
  "u16_be v = [of_nat (unat v div 256), of_nat (unat v mod 256)]"

definition spec_hpkeAad ::
  "('kem, 'rsa, 'ec) library \<Rightarrow> 'kem PublicNameKey \<Rightarrow> byte \<Rightarrow> bytes" where
  "spec_hpkeAad L pub tid =
     [key_id pub] @ u16_be (KEM_ID (suite pub)) @ u16_be (KDF_ID (suite pub))
       @ u16_be (AEAD_ID (suite pub)) @ u16_be (RateLimitedTokenType L) @ [tid]
       @ sha256_Sum256 L (PublicNameKey_Marshal L pub)"

text \<open>
  HKDF with its arguments named as in the specification: extract with \<open>salt\<close> over the input
  keying material \<open>ikm\<close>, then expand with \<open>info\<close> to \<open>len\<close> bytes. In \<open>hkdf.New\<close> the input
  keying material is the argument \<open>secret\<close>, which comes before the salt.
\<close>

definition HKDF_Extract_then_Expand ::
  "('kem, 'rsa, 'ec) library \<Rightarrow> hash_alg \<Rightarrow> bytes \<Rightarrow> bytes \<Rightarrow> bytes \<Rightarrow> nat \<Rightarrow> bytes" where
  "HKDF_Extract_then_Expand L h salt ikm info len = map (hkdf_New L h ikm salt info) [0..<len]"

text \<open>The index as the specification has it: the salt is the encoded index key.\<close>

definition spec_index :: "('kem, 'rsa, 'ec) library \<Rightarrow> bytes \<Rightarrow> bytes \<Rightarrow> bytes" where
  "spec_index L clientKey indexKeyEnc =
     HKDF_Extract_then_Expand L SHA384 indexKeyEnc clientKey (ascii ''anon_issuer_origin_id'') 48"

section \<open>Padding and unpadding\<close>

lemma go_rem_nonneg: "0 \<le> a \<Longrightarrow> 0 < b \<Longrightarrow> go_rem a b = a mod b"
  by (cases "a = 0") (simp_all add: go_rem_def)

lemma pad_empty: "padOriginName [] = replicate 32 0"
  by (simp add: padOriginName_def go_rem_def)

lemma pad_count_nonempty:
  assumes "s \<noteq> []"
  shows "31 - go_rem (int (length s) - 1) 32 = 31 - (int (length s) - 1) mod 32"
proof -
  from assms have "0 \<le> int (length s) - 1"
    by (cases s) simp_all
  then show ?thesis
    by (simp add: go_rem_nonneg)
qed

lemma pad_length_dvd: "32 dvd length (padOriginName s)"
proof (cases "s = []")
  case True
  then show ?thesis by (simp add: pad_empty)
next
  case False
  then have pos: "0 < length s" by simp
  define n where "n = length s"
  have "int (length (padOriginName s)) = int n + (31 - (int n - 1) mod 32)"
    using False by (simp add: padOriginName_def pad_count_nonempty n_def Let_def)
  moreover have "(32::int) dvd int n + (31 - (int n - 1) mod 32)"
    using pos unfolding n_def by presburger
  ultimately have "(32::int) dvd int (length (padOriginName s))"
    by simp
  then show ?thesis
    by presburger
qed

lemma unpad_loop_skip_zeros:
  "m \<le> n \<Longrightarrow>
   unpad_loop (s @ replicate n 0) (int (length s) + int m - 1) =
   unpad_loop (s @ replicate n 0) (int (length s) - 1)"
proof (induction m)
  case 0
  then show ?case by simp
next
  case (Suc m)
  then have le: "m \<le> n" and lt: "m < n" by simp_all
  define k where "k = int (length s) + int m"
  have k0: "\<not> k < 0" and kn: "\<not> int (length (s @ replicate n 0)) \<le> k"
    using lt by (simp_all add: k_def)
  have "nat k = length s + m"
    by (simp add: k_def)
  then have z: "(s @ replicate n 0) ! nat k = 0"
    using lt by (simp add: nth_append)
  have "unpad_loop (s @ replicate n 0) k = unpad_loop (s @ replicate n 0) (k - 1)"
    by (subst unpad_loop.simps) (simp only: k0 kn z if_False simp_thms)
  moreover have "int (length s) + int (Suc m) - 1 = k"
    by (simp add: k_def)
  moreover have "k - 1 = int (length s) + int m - 1"
    by (simp add: k_def)
  ultimately show ?case
    using Suc.IH [OF le] by simp
qed

lemma unpad_pad_shape:
  "unpadOriginName (s @ replicate n 0) = unpad_loop (s @ replicate n 0) (int (length s) - 1)"
  using unpad_loop_skip_zeros [of n n s]
  by (simp add: unpadOriginName_def)

lemma unpad_append_zeros:
  assumes "s \<noteq> []" and "last s \<noteq> 0"
  shows "unpadOriginName (s @ replicate n 0) = Returns s"
proof -
  from assms(1) have pos: "0 < length s" by simp
  have nth: "(s @ replicate n 0) ! (length s - 1) = last s"
    using assms(1) pos by (simp add: nth_append last_conv_nth)
  have "unpad_loop (s @ replicate n 0) (int (length s) - 1) = Returns s"
    using pos assms(2) nth
    by (subst unpad_loop.simps) (simp add: nat_diff_distrib')
  then show ?thesis
    by (simp add: unpad_pad_shape)
qed

lemma unpad_all_zero: "unpadOriginName (replicate n 0) = Returns []"
  using unpad_pad_shape [of "[]" n]
  by (simp add: unpad_loop.simps)

lemma all_zero_replicate: "set p \<subseteq> {0} \<Longrightarrow> p = replicate (length p) (0::byte)"
  by (induction p) auto

lemma pad_nonempty_multiple:
  assumes "s \<noteq> []" and "length s mod 32 = 0"
  shows "padOriginName s = s"
proof -
  define n where "n = length s"
  from assms have "0 < n" and "n mod 32 = 0"
    by (simp_all add: n_def)
  then have "(int n - 1) mod 32 = 31"
    by presburger
  then show ?thesis
    using assms(1) by (simp add: padOriginName_def pad_count_nonempty n_def)
qed

text \<open>
  C3 (as stated): a name whose length is a multiple of 32 is padded to \<open>len + 32\<close> bytes.
  That holds for the empty name only. At a name of 32 bytes, \<open>(32 - 1) % 32 = 31\<close> and
  \<open>N = 0\<close>: nothing is appended and the padded length is 32, not 64.
\<close>

theorem padOriginName_multiple_counterexample:
  "length (replicate 32 (0x61 :: byte)) mod 32 = 0 \<and>
   length (padOriginName (replicate 32 0x61)) \<noteq> length (replicate 32 (0x61 :: byte)) + 32"
  by (simp add: padOriginName_def go_rem_def)

text \<open>
  C3 (amended): for an origin name \<open>s\<close> whose length is a multiple of 32, \<open>padOriginName\<close>
  of the empty name is exactly 32 zero bytes, and a non-empty \<open>s\<close> is returned unchanged;
  the padded length is \<open>max 32 (len s)\<close>, the smallest positive multiple of 32 that is
  at least \<open>len s\<close>.
\<close>

theorem padOriginName_multiple_of_32:
  assumes "length s mod 32 = 0"
  shows "padOriginName s = (if s = [] then replicate 32 0 else s) \<and>
         length (padOriginName s) = max 32 (length s)"
proof (cases "s = []")
  case True
  then show ?thesis by (simp add: pad_empty)
next
  case False
  then have "0 < length s" by simp
  with assms have "32 \<le> length s"
    by presburger
  then show ?thesis
    using False assms by (simp add: pad_nonempty_multiple)
qed

theorem padOriginName_multiple_of_32_witness:
  "length (replicate 64 (0x61 :: byte)) mod 32 = 0 \<and>
   padOriginName (replicate 64 0x61) = replicate 64 0x61 \<and>
   length (padOriginName (replicate 64 0x61)) = 64 \<and>
   padOriginName [] = replicate 32 0"
  using padOriginName_multiple_of_32 [of "replicate 64 0x61"]
        padOriginName_multiple_of_32 [of "[]"]
  by simp

text \<open>
  C4: for every byte string \<open>s\<close> whose last byte is nonzero, unpadding the padded name gives
  \<open>s\<close> back and the padded length is a multiple of 32; unpadding an all-zero input gives the
  empty string.
\<close>

theorem unpad_pad_roundtrip:
  "(s \<noteq> [] \<and> last s \<noteq> 0 \<longrightarrow>
      unpadOriginName (padOriginName s) = Returns s \<and> length (padOriginName s) mod 32 = 0) \<and>
   (set p \<subseteq> {0} \<longrightarrow> unpadOriginName p = Returns [])"
proof (intro conjI impI)
  assume "s \<noteq> [] \<and> last s \<noteq> 0"
  then show "unpadOriginName (padOriginName s) = Returns s"
    by (simp add: padOriginName_def Let_def unpad_append_zeros)
next
  show "length (padOriginName s) mod 32 = 0"
    using pad_length_dvd [of s] by presburger
next
  assume "set p \<subseteq> {0}"
  then have "p = replicate (length p) 0"
    by (rule all_zero_replicate)
  then show "unpadOriginName p = Returns []"
    using unpad_all_zero [of "length p"] by simp
qed

theorem unpad_pad_roundtrip_witness:
  "[0x61, 0x2e, 0x63 :: byte] \<noteq> [] \<and> last [0x61, 0x2e, 0x63 :: byte] \<noteq> 0 \<and>
   unpadOriginName (padOriginName [0x61, 0x2e, 0x63]) = Returns [0x61, 0x2e, 0x63] \<and>
   length (padOriginName [0x61, 0x2e, 0x63]) mod 32 = 0 \<and>
   set (replicate 32 (0 :: byte)) \<subseteq> {0} \<and>
   unpadOriginName (replicate 32 0) = Returns []"
  using unpad_pad_roundtrip [of "[0x61, 0x2e, 0x63]" "replicate 32 0"]
  by simp

section \<open>Decoding an origin token request\<close>

lemma Unmarshal_accepts: "fst (Unmarshal r data) = reads_complete data"
  by (auto simp: Unmarshal_def reads_complete_def declared_length_def
      ReadUint16LengthPrefixed_def String_read_def Let_def)

lemma Unmarshal_fields:
  "reads_complete data \<Longrightarrow>
     snd (Unmarshal r data) =
       r\<lparr>blindedMsg := take 256 data, requestKey := take 49 (drop 256 data),
         paddedOrigin := take (declared_length data) (drop 307 data)\<rparr>"
  by (auto simp: Unmarshal_def reads_complete_def declared_length_def
      ReadUint16LengthPrefixed_def String_read_def Let_def)

text \<open>
  C6 (as stated): \<open>Unmarshal\<close> fails on every input that is not exactly the three fields.
  The source never asks whether the string is empty after the last read: an input with one
  byte after a padded origin of one byte is accepted, and the extra byte is dropped.
\<close>

theorem Unmarshal_trailing_counterexample:
  "\<not> spec_exact_layout (replicate 256 1 @ replicate 49 2 @ [0, 1, 0x41, 0xff]) \<and>
   Unmarshal OriginTokenRequest_zero (replicate 256 1 @ replicate 49 2 @ [0, 1, 0x41, 0xff]) =
     (True, \<lparr>raw = None, blindedMsg = replicate 256 1, requestKey = replicate 49 2,
              paddedOrigin = [0x41]\<rparr>)"
  by (simp add: spec_exact_layout_def declared_length_def prefix_length_def Unmarshal_def
      ReadUint16LengthPrefixed_def String_read_def OriginTokenRequest_zero_def)

text \<open>
  C6 (amended): \<open>Unmarshal\<close> fails exactly on a short read, that is when the input has fewer
  than 256 + 49 + 2 bytes or fewer bytes after the length prefix than the prefix declares.
  Bytes after the padded origin are not looked at: the call succeeds, and the fields are the
  first 256 bytes, the next 49 and the declared number of bytes after the prefix.
\<close>

theorem Unmarshal_short_read_only:
  "fst (Unmarshal r data) = reads_complete data \<and>
   (reads_complete data \<longrightarrow>
      snd (Unmarshal r data) =
        r\<lparr>blindedMsg := take 256 data, requestKey := take 49 (drop 256 data),
          paddedOrigin := take (declared_length data) (drop 307 data)\<rparr>)"
  by (simp add: Unmarshal_accepts Unmarshal_fields)

theorem Unmarshal_short_read_only_witness:
  "reads_complete (replicate 256 1 @ replicate 49 2 @ [0, 1, 0x41, 0xff]) \<and>
   fst (Unmarshal OriginTokenRequest_zero (replicate 256 1 @ replicate 49 2 @ [0, 1, 0x41, 0xff])) \<and>
   snd (Unmarshal OriginTokenRequest_zero (replicate 256 1 @ replicate 49 2 @ [0, 1, 0x41, 0xff])) =
     \<lparr>raw = None, blindedMsg = replicate 256 1, requestKey = replicate 49 2,
      paddedOrigin = [0x41]\<rparr> \<and>
   \<not> reads_complete (replicate 256 1 @ replicate 49 2 @ [0, 2, 0x41]) \<and>
   \<not> fst (Unmarshal OriginTokenRequest_zero (replicate 256 1 @ replicate 49 2 @ [0, 2, 0x41]))"
  using Unmarshal_short_read_only
          [of OriginTokenRequest_zero "replicate 256 1 @ replicate 49 2 @ [0, 1, 0x41, 0xff]"]
        Unmarshal_short_read_only
          [of OriginTokenRequest_zero "replicate 256 1 @ replicate 49 2 @ [0, 2, 0x41]"]
  by (simp add: reads_complete_def declared_length_def prefix_length_def
      OriginTokenRequest_zero_def)

section \<open>The additional data of the HPKE envelope\<close>

lemma ucast_low_byte: "(ucast v :: byte) = of_nat (unat (v :: 16 word) mod 256)"
proof -
  have "unat (ucast v :: byte) = unat v mod 256"
    using unsigned_ucast_eq [of v, where ?'c = 8 and ?'a = nat]
    by (simp add: take_bit_eq_mod)
  then have "unat (ucast v :: byte) = unat (of_nat (unat v mod 256) :: byte)"
    by (simp add: unat_of_nat)
  then show ?thesis
    by (simp only: word_unat_eq_iff)
qed

lemma ucast_high_byte: "(ucast (drop_bit 8 v) :: byte) = of_nat (unat (v :: 16 word) div 256)"
proof -
  have d: "unat (drop_bit 8 v) = unat v div 256"
    by (simp add: unat_drop_bit_eq drop_bit_eq_div unat_div)
  have "unat v < 2 ^ 16"
    using unsigned_less [of v, where ?'a = nat] by simp
  then have "unat v div 256 < 256"
    by simp
  then have "(unat v div 256) mod 256 = unat v div 256"
    by simp
  then show ?thesis
    by (simp only: ucast_low_byte [of "drop_bit 8 v"] d)
qed

lemma AddUint16_big_endian: "AddUint16 v = u16_be v"
  by (simp only: AddUint16_def u16_be_def ucast_high_byte) (simp only: ucast_low_byte)

lemma encrypt_aad_spec: "encrypt_aad L pub tid = spec_hpkeAad L pub tid"
  by (simp add: encrypt_aad_def spec_hpkeAad_def AddUint8_def AddUint16_big_endian)

lemma decrypt_aad_spec: "decrypt_aad L nk tid = spec_hpkeAad L (Public nk) tid"
  by (simp add: decrypt_aad_def spec_hpkeAad_def AddUint8_def AddUint16_big_endian Public_def)

lemma encrypt_seals_with_aad:
  assumes "hpke_SetupBaseS L (suite pub) rnd (publicKey pub) (ascii ''TokenRequest'') = Inr (enc, sctx)"
      and "length (padOriginName originName) \<le> 65535"
  shows "encryptOriginTokenRequest L rnd pub tid blindedMessage rk originName =
           Returns (Some (sha256_Sum256 L (PublicNameKey_Marshal L pub)),
                    Some (enc @ sender_Seal sctx (spec_hpkeAad L pub tid)
                            (blindedMessage @ rk
                               @ u16_be (of_nat (length (padOriginName originName)))
                               @ padOriginName originName)),
                    Some (sender_Export sctx (ascii ''OriginTokenResponse'')
                            (AEAD_KeySize (suite pub))),
                    None)"
  using assms
  by (simp add: encryptOriginTokenRequest_def Marshal_def Let_def encrypt_aad_spec
      AddUint16_big_endian)

lemma decrypt_opens_with_aad:
  assumes "KEM_PublicKeySize (private_suite nk) \<le> length etr"
      and "hpke_SetupBaseR L (private_suite nk) (privateKey nk)
             (take (KEM_PublicKeySize (private_suite nk)) etr) (ascii ''TokenRequest'') = Inr rctx"
  shows "decryptOriginTokenRequest L nk tid etr =
           (case receiver_Open rctx (spec_hpkeAad L (Public nk) tid)
                   (drop (KEM_PublicKeySize (private_suite nk)) etr) of
              Inl err \<Rightarrow> Returns (OriginTokenRequest_zero, [], Some (External err))
            | Inr pt \<Rightarrow>
                if fst (Unmarshal OriginTokenRequest_zero pt)
                then Returns (snd (Unmarshal OriginTokenRequest_zero pt),
                              receiver_Export rctx (ascii ''OriginTokenResponse'')
                                (AEAD_KeySize (private_suite nk)), None)
                else Returns (OriginTokenRequest_zero, [], None))"
  using assms
  by (auto simp: decryptOriginTokenRequest_def Let_def decrypt_aad_spec
      split: sum.splits prod.splits bool.splits)


text \<open>
  C7: for a private name key and its public part, the additional data the client builds in
  \<open>encryptOriginTokenRequest\<close> and the one the issuer builds in
  \<open>decryptOriginTokenRequest\<close> are the same bytes, and they are the concatenation the
  specification writes. These are the bytes the two functions hand to HPKE: whenever the
  sender's setup succeeds, the encrypted request is the encapsulated key followed by the
  context's \<open>Seal\<close> of the encoded request under exactly this additional data; and whenever
  the receiver's setup succeeds, the result of \<open>decryptOriginTokenRequest\<close> is what the
  context's \<open>Open\<close> under exactly this additional data gives.
\<close>

theorem hpke_aad_both_sides:
  "encrypt_aad L (Public nk) tid = decrypt_aad L nk tid \<and>
   encrypt_aad L pub tid = spec_hpkeAad L pub tid \<and>
   decrypt_aad L nk tid = spec_hpkeAad L (Public nk) tid \<and>
   (hpke_SetupBaseS L (suite pub) rnd (publicKey pub) (ascii ''TokenRequest'') = Inr (enc, sctx) \<and>
    length (padOriginName originName) \<le> 65535 \<longrightarrow>
      encryptOriginTokenRequest L rnd pub tid blindedMessage rk originName =
        Returns (Some (sha256_Sum256 L (PublicNameKey_Marshal L pub)),
                 Some (enc @ sender_Seal sctx (spec_hpkeAad L pub tid)
                         (blindedMessage @ rk
                            @ u16_be (of_nat (length (padOriginName originName)))
                            @ padOriginName originName)),
                 Some (sender_Export sctx (ascii ''OriginTokenResponse'')
                         (AEAD_KeySize (suite pub))),
                 None)) \<and>
   (KEM_PublicKeySize (private_suite nk) \<le> length etr \<and>
    hpke_SetupBaseR L (private_suite nk) (privateKey nk)
      (take (KEM_PublicKeySize (private_suite nk)) etr) (ascii ''TokenRequest'') = Inr rctx \<longrightarrow>
      decryptOriginTokenRequest L nk tid etr =
        (case receiver_Open rctx (spec_hpkeAad L (Public nk) tid)
                (drop (KEM_PublicKeySize (private_suite nk)) etr) of
           Inl err \<Rightarrow> Returns (OriginTokenRequest_zero, [], Some (External err))
         | Inr pt \<Rightarrow>
             if fst (Unmarshal OriginTokenRequest_zero pt)
             then Returns (snd (Unmarshal OriginTokenRequest_zero pt),
                           receiver_Export rctx (ascii ''OriginTokenResponse'')
                             (AEAD_KeySize (private_suite nk)), None)
             else Returns (OriginTokenRequest_zero, [], None)))"
  using encrypt_seals_with_aad [of L pub rnd enc sctx originName tid blindedMessage rk]
        decrypt_opens_with_aad [of nk etr L rctx tid]
  by (simp add: encrypt_aad_spec decrypt_aad_spec)

theorem hpke_aad_both_sides_witness:
  "spec_hpkeAad bound_library (Public (issuer_nameKey plain_issuer)) 7 =
     [0, 0, 0x20, 0, 1, 0, 1, 0, 3, 7, 0, 5] @ replicate 30 0 \<and>
   encryptOriginTokenRequest bound_library (replicate 32 8) (Public (issuer_nameKey plain_issuer)) 7
     (replicate 256 1) (2 # replicate 48 1) (ascii ''a.example'') =
     Returns (Some ([0, 5] @ replicate 30 0),
              Some (replicate 32 8 @ replicate 256 1 @ (2 # replicate 48 1) @ [0, 32]
                      @ padOriginName (ascii ''a.example'')
                      @ [0, 0, 0x20, 0, 1, 0, 1, 0, 3, 7, 0, 5] @ replicate 30 0),
              Some (replicate 16 9), None) \<and>
   decryptOriginTokenRequest bound_library (issuer_nameKey plain_issuer) 7
     (replicate 32 8 @ replicate 256 1 @ (2 # replicate 48 1) @ [0, 32]
        @ padOriginName (ascii ''a.example'')
        @ [0, 0, 0x20, 0, 1, 0, 1, 0, 3, 7, 0, 5] @ replicate 30 0) =
     Returns (\<lparr>raw = None, blindedMsg = replicate 256 1, requestKey = 2 # replicate 48 1,
               paddedOrigin = padOriginName (ascii ''a.example'')\<rparr>, replicate 16 9, None) \<and>
   decryptOriginTokenRequest bound_library (issuer_nameKey plain_issuer) 8
     (replicate 32 8 @ replicate 256 1 @ (2 # replicate 48 1) @ [0, 32]
        @ padOriginName (ascii ''a.example'')
        @ [0, 0, 0x20, 0, 1, 0, 1, 0, 3, 7, 0, 5] @ replicate 30 0) =
     Returns (OriginTokenRequest_zero, [], Some (External 3))"
proof -
  let ?nk = "issuer_nameKey plain_issuer"
  let ?pub = "Public ?nk"
  let ?rnd = "replicate 32 (8 :: byte)"
  let ?name = "ascii ''a.example''"
  let ?sctx = "\<lparr>sender_Seal = (\<lambda>aad pt. pt @ aad),
                sender_Export = (\<lambda>label n. replicate n (9 :: byte))\<rparr>"
  let ?rctx = "\<lparr>receiver_Open = (\<lambda>aad ct.
                  if length aad \<le> length ct \<and> drop (length ct - length aad) ct = aad
                  then Inr (take (length ct - length aad) ct) else Inl 3),
                receiver_Export = (\<lambda>label n. replicate n (9 :: byte))\<rparr>"
  let ?aad = "[0, 0, 0x20, 0, 1, 0, 1, 0, 3, 7, 0, 5] @ replicate 30 (0 :: byte)"
  let ?etr = "replicate 32 8 @ replicate 256 1 @ (2 # replicate 48 1) @ [0, 32]
                @ padOriginName ?name @ ?aad"
  have a: "spec_hpkeAad bound_library ?pub 7 = ?aad"
    by code_simp
  have s: "hpke_SetupBaseS bound_library (suite ?pub) ?rnd (publicKey ?pub)
             (ascii ''TokenRequest'') = Inr (?rnd, ?sctx)"
    by (simp add: bound_library_def)
  have p: "length (padOriginName ?name) \<le> 65535"
    by code_simp
  have k: "KEM_PublicKeySize (private_suite ?nk) = 32"
    by (simp add: plain_issuer_def plain_suite_def)
  have l: "KEM_PublicKeySize (private_suite ?nk) \<le> length ?etr"
    by (simp add: k)
  have r: "hpke_SetupBaseR bound_library (private_suite ?nk) (privateKey ?nk)
             (take (KEM_PublicKeySize (private_suite ?nk)) ?etr) (ascii ''TokenRequest'') =
           Inr ?rctx"
    by (simp add: bound_library_def)
  have e: "encryptOriginTokenRequest bound_library ?rnd ?pub 7 (replicate 256 1)
             (2 # replicate 48 1) ?name =
           Returns (Some (sha256_Sum256 bound_library (PublicNameKey_Marshal bound_library ?pub)),
                    Some (?rnd @ sender_Seal ?sctx (spec_hpkeAad bound_library ?pub 7)
                            (replicate 256 1 @ (2 # replicate 48 1)
                               @ u16_be (of_nat (length (padOriginName ?name)))
                               @ padOriginName ?name)),
                    Some (sender_Export ?sctx (ascii ''OriginTokenResponse'')
                            (AEAD_KeySize (suite ?pub))),
                    None)"
    using s p hpke_aad_both_sides [of bound_library ?nk 7 ?pub ?rnd ?rnd ?sctx ?name]
    by blast
  have d7: "decryptOriginTokenRequest bound_library ?nk 7 ?etr =
        (case receiver_Open ?rctx (spec_hpkeAad bound_library (Public ?nk) 7)
                (drop (KEM_PublicKeySize (private_suite ?nk)) ?etr) of
           Inl err \<Rightarrow> Returns (OriginTokenRequest_zero, [], Some (External err))
         | Inr pt \<Rightarrow>
             if fst (Unmarshal OriginTokenRequest_zero pt)
             then Returns (snd (Unmarshal OriginTokenRequest_zero pt),
                           receiver_Export ?rctx (ascii ''OriginTokenResponse'')
                             (AEAD_KeySize (private_suite ?nk)), None)
             else Returns (OriginTokenRequest_zero, [], None))"
    using l r hpke_aad_both_sides [of bound_library ?nk 7 ?pub ?rnd ?rnd ?sctx ?name _ _ ?etr ?rctx]
    by blast
  have d8: "decryptOriginTokenRequest bound_library ?nk 8 ?etr =
        (case receiver_Open ?rctx (spec_hpkeAad bound_library (Public ?nk) 8)
                (drop (KEM_PublicKeySize (private_suite ?nk)) ?etr) of
           Inl err \<Rightarrow> Returns (OriginTokenRequest_zero, [], Some (External err))
         | Inr pt \<Rightarrow>
             if fst (Unmarshal OriginTokenRequest_zero pt)
             then Returns (snd (Unmarshal OriginTokenRequest_zero pt),
                           receiver_Export ?rctx (ascii ''OriginTokenResponse'')
                             (AEAD_KeySize (private_suite ?nk)), None)
             else Returns (OriginTokenRequest_zero, [], None))"
    using l r hpke_aad_both_sides [of bound_library ?nk 8 ?pub ?rnd ?rnd ?sctx ?name _ _ ?etr ?rctx]
    by blast
  have e': "Returns (Some (sha256_Sum256 bound_library (PublicNameKey_Marshal bound_library ?pub)),
                    Some (?rnd @ sender_Seal ?sctx (spec_hpkeAad bound_library ?pub 7)
                            (replicate 256 1 @ (2 # replicate 48 1)
                               @ u16_be (of_nat (length (padOriginName ?name)))
                               @ padOriginName ?name)),
                    Some (sender_Export ?sctx (ascii ''OriginTokenResponse'')
                            (AEAD_KeySize (suite ?pub))),
                    None) =
            Returns (Some ([0, 5] @ replicate 30 0), Some ?etr, Some (replicate 16 9),
                     (None :: error option))"
    by code_simp
  have d7': "(case receiver_Open ?rctx (spec_hpkeAad bound_library (Public ?nk) 7)
                (drop (KEM_PublicKeySize (private_suite ?nk)) ?etr) of
           Inl err \<Rightarrow> Returns (OriginTokenRequest_zero, [], Some (External err))
         | Inr pt \<Rightarrow>
             if fst (Unmarshal OriginTokenRequest_zero pt)
             then Returns (snd (Unmarshal OriginTokenRequest_zero pt),
                           receiver_Export ?rctx (ascii ''OriginTokenResponse'')
                             (AEAD_KeySize (private_suite ?nk)), None)
             else Returns (OriginTokenRequest_zero, [], None)) =
            Returns (\<lparr>raw = None, blindedMsg = replicate 256 1, requestKey = 2 # replicate 48 1,
                      paddedOrigin = padOriginName ?name\<rparr>, replicate 16 9, None)"
    by code_simp
  have d8': "(case receiver_Open ?rctx (spec_hpkeAad bound_library (Public ?nk) 8)
                (drop (KEM_PublicKeySize (private_suite ?nk)) ?etr) of
           Inl err \<Rightarrow> Returns (OriginTokenRequest_zero, [], Some (External err))
         | Inr pt \<Rightarrow>
             if fst (Unmarshal OriginTokenRequest_zero pt)
             then Returns (snd (Unmarshal OriginTokenRequest_zero pt),
                           receiver_Export ?rctx (ascii ''OriginTokenResponse'')
                             (AEAD_KeySize (private_suite ?nk)), None)
             else Returns (OriginTokenRequest_zero, [], None)) =
            Returns (OriginTokenRequest_zero, [], Some (External 3))"
    by code_simp
  show ?thesis
    using a e d7 d8 unfolding e' d7' d8' by (intro conjI)
qed

section \<open>The index of the attester\<close>

lemma computeIndex_value:
  "computeIndex L clientKey indexKeyEnc =
     (Some (HKDF_Extract_then_Expand L SHA384 clientKey indexKeyEnc
              (ascii ''anon_issuer_origin_id'') 48), None)"
  by (simp add: computeIndex_def io_ReadFull_def HKDF_Extract_then_Expand_def)

text \<open>
  C2 (as stated): the index is HKDF with the encoded index key as salt and the client key
  as input keying material. The source passes them to \<open>hkdf.New\<close> the other way round, and
  the two differ as soon as the library tells its secret from its salt.
\<close>

theorem computeIndex_roles_counterexample:
  "computeIndex plain_library [1] [2] \<noteq> (Some (spec_index plain_library [1] [2]), None)"
  by (simp add: computeIndex_value HKDF_Extract_then_Expand_def spec_index_def plain_library_def
      upt_rec)

text \<open>
  C2 (amended): for every client key and encoded index key, the index is one HKDF
  extract-then-expand with SHA-384 whose salt is the client key and whose input keying
  material is the encoded index key, with info \<open>anon_issuer_origin_id\<close>, of exactly 48
  bytes; \<open>FinalizeIndex\<close> returns it for the compressed encoding of the unblinded key.
\<close>

theorem FinalizeIndex_hkdf_roles:
  "computeIndex L clientKey indexKeyEnc =
     (Some (HKDF_Extract_then_Expand L SHA384 clientKey indexKeyEnc
              (ascii ''anon_issuer_origin_id'') 48), None) \<and>
   length (HKDF_Extract_then_Expand L SHA384 clientKey indexKeyEnc
             (ascii ''anon_issuer_origin_id'') 48) = 48 \<and>
   (ecdsa_CreateKey L blindEnc = Inr blindKey \<and>
    ecdsa_UnblindPublicKey L (elliptic_UnmarshalCompressed L blindedRequestKeyEnc) blindKey =
      Returns (Inr indexKey) \<longrightarrow>
    FinalizeIndex L clientKey blindEnc blindedRequestKeyEnc =
      Returns (Some (HKDF_Extract_then_Expand L SHA384 clientKey
                       (elliptic_MarshalCompressed L indexKey)
                       (ascii ''anon_issuer_origin_id'') 48), None))"
  by (simp add: computeIndex_value FinalizeIndex_def HKDF_Extract_then_Expand_def)

theorem FinalizeIndex_hkdf_roles_witness:
  "ecdsa_CreateKey plain_library [2] = Inr 2 \<and>
   ecdsa_UnblindPublicKey plain_library
     (elliptic_UnmarshalCompressed plain_library (2 # replicate 47 0 @ [6])) 2 =
     Returns (Inr (3, 0)) \<and>
   FinalizeIndex plain_library [1] [2] (2 # replicate 47 0 @ [6]) =
     Returns (Some (HKDF_Extract_then_Expand plain_library SHA384 [1]
                      (elliptic_MarshalCompressed plain_library (3, 0))
                      (ascii ''anon_issuer_origin_id'') 48), None)"
proof -
  have c: "ecdsa_CreateKey plain_library [2] = Inr 2"
    by (simp add: plain_library_def SetBytes_def)
  have u: "ecdsa_UnblindPublicKey plain_library
             (elliptic_UnmarshalCompressed plain_library (2 # replicate 47 0 @ [6])) 2 =
           Returns (Inr (3, 0))"
    by code_simp
  show ?thesis
    using c u FinalizeIndex_hkdf_roles
                [of plain_library "[1]" "[]" "[2]" 2 "2 # replicate 47 0 @ [6]" "(3, 0)"]
    by blast
qed

section \<open>Unpadding always returns\<close>

lemma zeros_split: "\<exists>s n. p = s @ replicate n (0::byte) \<and> (s = [] \<or> last s \<noteq> 0)"
proof (induction p rule: rev_induct)
  case Nil
  then show ?case by simp
next
  case (snoc x xs)
  show ?case
  proof (cases "x = 0")
    case False
    then have "xs @ [x] = (xs @ [x]) @ replicate 0 0 \<and> last (xs @ [x]) \<noteq> 0"
      by simp
    then show ?thesis by blast
  next
    case True
    from snoc obtain s n where "xs = s @ replicate n 0" and "s = [] \<or> last s \<noteq> 0"
      by blast
    then have "xs @ [x] = s @ replicate (Suc n) 0 \<and> (s = [] \<or> last s \<noteq> 0)"
      using True by (simp add: replicate_append_same)
    then show ?thesis by blast
  qed
qed

lemma unpadOriginName_returns:
  "unpadOriginName p = Returns (rev (dropWhile (\<lambda>b. b = 0) (rev p)))"
proof -
  obtain s n where p: "p = s @ replicate n 0" and s: "s = [] \<or> last s \<noteq> 0"
    using zeros_split by blast
  show ?thesis
  proof (cases "s = []")
    case True
    then show ?thesis
      using p by (simp add: unpad_all_zero)
  next
    case False
    with s have l: "last s \<noteq> 0" by simp
    have "dropWhile (\<lambda>b. b = 0) (rev s) = rev s"
      using False l by (cases "rev s") (auto simp: last_rev [symmetric] hd_rev)
    then show ?thesis
      using p False l by (simp add: unpad_append_zeros dropWhile_append)
  qed
qed

section \<open>Evaluation by the issuer\<close>

text \<open>
  C8: when \<open>decryptOriginTokenRequest\<close> returns a request and no error, \<open>Evaluate\<close> and
  \<open>EvaluateWithoutCheck\<close> return an \<open>UnknownOrigin\<close> error exactly when the unpadded origin
  name is not a key of \<open>originIndexKeys\<close>; the two outputs are then nil and the error names
  that origin; and a call leaves the issuer, its mapping included, as it was.
\<close>

theorem UnknownOrigin_exactly_when_unregistered:
  assumes "decryptOriginTokenRequest L (issuer_nameKey i) (tokenKeyID req)
             (encryptedTokenRequest req) = Returns (otr, secret, None)"
      and "unpadOriginName (paddedOrigin otr) = Returns originName"
  shows "((\<exists>a b name. Evaluate L rnd i req = Returns (a, b, Some (UnknownOrigin name)))
            \<longleftrightarrow> originName \<notin> dom (originIndexKeys i)) \<and>
         ((\<exists>a b name. EvaluateWithoutCheck L rnd i req = Returns (a, b, Some (UnknownOrigin name)))
            \<longleftrightarrow> originName \<notin> dom (originIndexKeys i)) \<and>
         (originName \<notin> dom (originIndexKeys i) \<longrightarrow>
            Evaluate L rnd i req = Returns (None, None, Some (UnknownOrigin originName)) \<and>
            EvaluateWithoutCheck L rnd i req =
              Returns (None, None, Some (UnknownOrigin originName))) \<and>
         originIndexKeys (snd (Evaluate_call L rnd req i)) = originIndexKeys i \<and>
         originIndexKeys (snd (EvaluateWithoutCheck_call L rnd req i)) = originIndexKeys i"
proof (intro conjI)
  show "(\<exists>a b name. Evaluate L rnd i req = Returns (a, b, Some (UnknownOrigin name)))
          \<longleftrightarrow> originName \<notin> dom (originIndexKeys i)"
    using assms unfolding Evaluate_def
    by (auto simp: Let_def
        split: option.splits outcome.splits sum.splits bool.splits if_splits)
  show "(\<exists>a b name. EvaluateWithoutCheck L rnd i req = Returns (a, b, Some (UnknownOrigin name)))
          \<longleftrightarrow> originName \<notin> dom (originIndexKeys i)"
    using assms unfolding EvaluateWithoutCheck_def
    by (auto simp: Let_def
        split: option.splits outcome.splits sum.splits bool.splits if_splits)
  show "originName \<notin> dom (originIndexKeys i) \<longrightarrow>
          Evaluate L rnd i req = Returns (None, None, Some (UnknownOrigin originName)) \<and>
          EvaluateWithoutCheck L rnd i req =
            Returns (None, None, Some (UnknownOrigin originName))"
    using assms by (auto simp: Evaluate_def EvaluateWithoutCheck_def)
  show "originIndexKeys (snd (Evaluate_call L rnd req i)) = originIndexKeys i"
    by (simp add: Evaluate_call_def)
  show "originIndexKeys (snd (EvaluateWithoutCheck_call L rnd req i)) = originIndexKeys i"
    by (simp add: EvaluateWithoutCheck_call_def)
qed

theorem UnknownOrigin_exactly_when_unregistered_witness:
  "decryptOriginTokenRequest plain_library (issuer_nameKey plain_issuer)
     (tokenKeyID (plain_request (ascii ''b.example'')))
     (encryptedTokenRequest (plain_request (ascii ''b.example''))) =
     Returns (\<lparr>raw = None, blindedMsg = replicate 256 1, requestKey = 2 # replicate 48 1,
               paddedOrigin = padOriginName (ascii ''b.example'')\<rparr>, replicate 16 9, None) \<and>
   unpadOriginName (padOriginName (ascii ''b.example'')) = Returns (ascii ''b.example'') \<and>
   ascii ''b.example'' \<notin> dom (originIndexKeys plain_issuer) \<and>
   Evaluate plain_library plain_entropy plain_issuer (plain_request (ascii ''b.example'')) =
     Returns (None, None, Some (UnknownOrigin (ascii ''b.example''))) \<and>
   EvaluateWithoutCheck plain_library plain_entropy plain_issuer
     (plain_request (ascii ''b.example'')) =
     Returns (None, None, Some (UnknownOrigin (ascii ''b.example'')))"
proof -
  let ?otr = "\<lparr>raw = None, blindedMsg = replicate 256 1, requestKey = 2 # replicate 48 1,
               paddedOrigin = padOriginName (ascii ''b.example'')\<rparr>"
  have d: "decryptOriginTokenRequest plain_library (issuer_nameKey plain_issuer)
             (tokenKeyID (plain_request (ascii ''b.example'')))
             (encryptedTokenRequest (plain_request (ascii ''b.example''))) =
           Returns (?otr, replicate 16 9, None)"
    by code_simp
  have u: "unpadOriginName (paddedOrigin ?otr) = Returns (ascii ''b.example'')"
    by code_simp
  have n: "ascii ''b.example'' \<notin> dom (originIndexKeys plain_issuer)"
    by (simp add: plain_issuer_def ascii_def)
  show ?thesis
    using d u n
      UnknownOrigin_exactly_when_unregistered [OF d u, of plain_entropy]
    by simp
qed

text \<open>
  C1: \<open>EvaluateWithoutCheck\<close> is to return what \<open>Evaluate\<close> returns on a request that
  passes, in the format \<open>responseNonce \<parallel> ciphertext\<close>. On every such request, and for every
  library, \<open>Evaluate\<close> returns the response nonce followed by the sealed blind signature,
  and \<open>EvaluateWithoutCheck\<close> returns the same blinded request key but the sealed blind
  signature alone: the response nonce, from which the client derives the key, is missing.
\<close>

theorem EvaluateWithoutCheck_omits_responseNonce:
  assumes "Evaluate L rnd i req = Returns (Some resp, Some key, None)"
  shows "\<exists>ct. resp =
                map (rand_bytes rnd)
                  [0..<go_max (AEAD_KeySize (private_suite (issuer_nameKey i)))
                              (AEAD_NonceSize (private_suite (issuer_nameKey i)))] @ ct \<and>
              EvaluateWithoutCheck L rnd i req = Returns (Some ct, Some key, None)"
  using assms unfolding Evaluate_def EvaluateWithoutCheck_def
  by (auto simp: Let_def rand_Read_def
      split: option.splits outcome.splits sum.splits bool.splits if_splits prod.splits)

theorem EvaluateWithoutCheck_omits_responseNonce_witness:
  "Evaluate plain_library plain_entropy plain_issuer (plain_request (ascii ''a.example'')) =
     Returns (Some (replicate 16 42 @ [1, 1, 1, 1] @ replicate 16 42),
              Some (2 # replicate 48 11), None) \<and>
   EvaluateWithoutCheck plain_library plain_entropy plain_issuer
     (plain_request (ascii ''a.example'')) =
     Returns (Some ([1, 1, 1, 1] @ replicate 16 42), Some (2 # replicate 48 11), None)"
proof -
  have e: "Evaluate plain_library plain_entropy plain_issuer
             (plain_request (ascii ''a.example'')) =
           Returns (Some (replicate 16 42 @ [1, 1, 1, 1] @ replicate 16 42),
                    Some (2 # replicate 48 11), None)"
    by code_simp
  have n: "map (rand_bytes plain_entropy)
             [0..<go_max (AEAD_KeySize (private_suite (issuer_nameKey plain_issuer)))
                         (AEAD_NonceSize (private_suite (issuer_nameKey plain_issuer)))] =
           replicate 16 42"
    by code_simp
  from EvaluateWithoutCheck_omits_responseNonce [OF e] obtain ct where
    "replicate 16 42 @ [1, 1, 1, 1] @ replicate 16 42 = replicate 16 (42::byte) @ ct" and
    w: "EvaluateWithoutCheck plain_library plain_entropy plain_issuer
          (plain_request (ascii ''a.example'')) =
        Returns (Some ct, Some (2 # replicate 48 11), None)"
    unfolding n by blast
  then have "ct = [1, 1, 1, 1] @ replicate 16 42"
    by simp
  with e w show ?thesis
    by simp
qed

text \<open>
  \<open>Evaluate\<close> does not look at what \<open>elliptic.UnmarshalCompressed\<close> returns. When the
  request key does not decode, the nil coordinates go to \<open>ecdsa.Verify\<close>, and the outcome is
  the one \<open>Verify\<close> makes of them: an error if it returns false, a panic if it panics.
\<close>

lemma Evaluate_undecodable_requestKey:
  assumes "decryptOriginTokenRequest L (issuer_nameKey i) (tokenKeyID req)
             (encryptedTokenRequest req) = Returns (otr, secret, None)"
      and "unpadOriginName (paddedOrigin otr) = Returns originName"
      and "originIndexKeys i originName = Some originIndexKey"
      and "elliptic_UnmarshalCompressed L (requestKey otr) = None"
      and "48 \<le> length (signature req)"
      and "ecdsa_Verify L None (sha512_Sum384 L (signed_message L req))
             (SetBytes (take 48 (signature req))) (SetBytes (drop 48 (signature req))) = v"
  shows "v = Returns False \<Longrightarrow>
           Evaluate L rnd i req = Returns (None, None, Some InvalidRequestSignature)"
    and "v = Panics \<Longrightarrow> Evaluate L rnd i req = Panics"
    and "v = Returns True \<Longrightarrow> ecdsa_BlindPublicKey L None originIndexKey = Panics \<Longrightarrow>
           Evaluate L rnd i req = Panics"
  using assms unfolding Evaluate_def
  by (simp_all add: Let_def P384_BitSize_def)

text \<open>
  What the client makes of the two responses of the witness above: it opens the response of
  \<open>Evaluate\<close>, and fails to open the response of \<open>EvaluateWithoutCheck\<close>, whose first 16
  bytes it takes for the response nonce.
\<close>

lemma FinalizeToken_on_both_responses:
  "FinalizeToken plain_library plain_state
     \<lparr>elems = replicate 16 42 @ [1, 1, 1, 1] @ replicate 16 42, spare = []\<rparr> =
     Returns (Token_zero\<lparr>Authenticator := [0, 3, 7, 1, 1, 1, 1]\<rparr>, None) \<and>
   FinalizeToken plain_library plain_state
     \<lparr>elems = [1, 1, 1, 1] @ replicate 16 42, spare = []\<rparr> =
     Returns (Token_zero, Some (External 2))"
  by code_simp

section \<open>A payload that opens but does not decode\<close>

text \<open>
  C5: when the HPKE open succeeds and \<open>Unmarshal\<close> returns false,
  \<open>decryptOriginTokenRequest\<close> is to return an error. It returns the zero request, a nil
  secret and a nil error. \<open>Evaluate\<close> then passes its \<open>err != nil\<close> check and goes on with
  the zero request, whose origin name is empty: if the empty name is not registered, the
  error it returns is \<open>UnknownOrigin\<close> of the empty name.
\<close>

theorem decode_failure_returns_nil_error:
  assumes "KEM_PublicKeySize (private_suite nk) \<le> length etr"
      and "hpke_SetupBaseR L (private_suite nk) (privateKey nk)
             (take (KEM_PublicKeySize (private_suite nk)) etr) (ascii ''TokenRequest'') = Inr ctx"
      and "receiver_Open ctx (decrypt_aad L nk tid)
             (drop (KEM_PublicKeySize (private_suite nk)) etr) = Inr pt"
      and "\<not> fst (Unmarshal OriginTokenRequest_zero pt)"
  shows "decryptOriginTokenRequest L nk tid etr = Returns (OriginTokenRequest_zero, [], None) \<and>
         (issuer_nameKey i = nk \<and> tokenKeyID req = tid \<and> encryptedTokenRequest req = etr \<and>
          originIndexKeys i [] = None \<longrightarrow>
            Evaluate L rnd i req = Returns (None, None, Some (UnknownOrigin [])))"
proof -
  have d: "decryptOriginTokenRequest L nk tid etr = Returns (OriginTokenRequest_zero, [], None)"
    using assms
    by (cases "Unmarshal OriginTokenRequest_zero pt")
       (simp add: decryptOriginTokenRequest_def Let_def)
  have u: "unpadOriginName (paddedOrigin OriginTokenRequest_zero) = Returns []"
    by (simp add: unpadOriginName_returns OriginTokenRequest_zero_def)
  show ?thesis
    using d u by (auto simp: Evaluate_def)
qed

theorem decode_failure_returns_nil_error_witness:
  "decryptOriginTokenRequest plain_library (issuer_nameKey plain_issuer) 7
     (replicate 32 8 @ [1, 2, 3]) = Returns (OriginTokenRequest_zero, [], None) \<and>
   \<not> fst (Unmarshal OriginTokenRequest_zero [1, 2, 3]) \<and>
   Evaluate plain_library plain_entropy plain_issuer
     \<lparr>tokenKeyID = 7, nameKeyID = replicate 32 0,
      encryptedTokenRequest = replicate 32 8 @ [1, 2, 3], signature = replicate 96 1\<rparr> =
     Returns (None, None, Some (UnknownOrigin []))"
proof -
  let ?nk = "issuer_nameKey plain_issuer"
  let ?etr = "replicate 32 8 @ [1, 2, 3 :: byte]"
  let ?ctx = "\<lparr>receiver_Open = (\<lambda>aad ct. Inr ct),
               receiver_Export = (\<lambda>label n. replicate n 9)\<rparr>"
  let ?req = "\<lparr>tokenKeyID = 7, nameKeyID = replicate 32 0,
               encryptedTokenRequest = ?etr, signature = replicate 96 1\<rparr>"
  have k: "KEM_PublicKeySize (private_suite ?nk) = 32"
    by (simp add: plain_issuer_def plain_suite_def)
  have 1: "KEM_PublicKeySize (private_suite ?nk) \<le> length ?etr"
    by (simp add: k)
  have 2: "hpke_SetupBaseR plain_library (private_suite ?nk) (privateKey ?nk)
             (take (KEM_PublicKeySize (private_suite ?nk)) ?etr) (ascii ''TokenRequest'') =
           Inr ?ctx"
    by (simp add: plain_library_def)
  have 3: "receiver_Open ?ctx (decrypt_aad plain_library ?nk 7)
             (drop (KEM_PublicKeySize (private_suite ?nk)) ?etr) = Inr [1, 2, 3]"
    by (simp add: k)
  have 4: "\<not> fst (Unmarshal OriginTokenRequest_zero [1, 2, 3])"
    by (simp add: Unmarshal_accepts reads_complete_def)
  have 5: "originIndexKeys plain_issuer [] = None"
    by (simp add: plain_issuer_def ascii_def)
  show ?thesis
    using 4 5 decode_failure_returns_nil_error [OF 1 2 3 4, of plain_issuer ?req plain_entropy]
    by simp
qed

section \<open>The length of the encrypted response\<close>

lemma FinalizeToken_long_enough:
  assumes "go_max (AEAD_KeySize (suite (nameKey s))) (AEAD_NonceSize (suite (nameKey s)))
             \<le> length (elems resp)"
  shows "\<exists>token err. FinalizeToken L s resp = Returns (token, err)"
  using assms unfolding FinalizeToken_def slice_to_def slice_from_def
  by (auto simp: Let_def split: sum.splits option.splits)

lemma FinalizeToken_too_short:
  assumes "length (elems resp)
             < go_max (AEAD_KeySize (suite (nameKey s))) (AEAD_NonceSize (suite (nameKey s)))"
      and "\<forall>prk. \<exists>cipher. AEAD_New (suite (nameKey s))
             (KDF_Expand (suite (nameKey s)) prk (ascii ''key'')
                (AEAD_KeySize (suite (nameKey s)))) = Inr cipher"
  shows "FinalizeToken L s resp = Panics"
proof -
  let ?st = "suite (nameKey s)"
  let ?n = "go_max (AEAD_KeySize ?st) (AEAD_NonceSize ?st)"
  show ?thesis
  proof (cases "length (elems resp) + length (spare resp) < ?n")
    case True
    then show ?thesis
      by (simp add: FinalizeToken_def slice_to_def Let_def)
  next
    case False
    define prk where
      "prk = KDF_Extract ?st (encapEnc s @ take ?n (elems resp @ spare resp)) (encapSecret s)"
    from assms(2) obtain cipher where
      "AEAD_New ?st (KDF_Expand ?st prk (ascii ''key'') (AEAD_KeySize ?st)) = Inr cipher"
      by blast
    then show ?thesis
      using False assms(1)
      by (simp add: FinalizeToken_def slice_to_def slice_from_def Let_def prk_def)
  qed
qed

text \<open>
  C10: \<open>FinalizeToken\<close> returns (a token or an error) whenever the encrypted response has
  at least \<open>max(Nk, Nn)\<close> bytes, and panics on every shorter response. The first slice
  expression is bounded by the capacity of the response and the second by its length, and
  between the two stands the early return for an error of \<open>AEAD.New\<close>; the panic is reached
  when the AEAD takes the keys the KDF derives at the AEAD's key size, as AES-128-GCM does.
\<close>

theorem FinalizeToken_returns_iff_long_enough:
  "(go_max (AEAD_KeySize (suite (nameKey s))) (AEAD_NonceSize (suite (nameKey s)))
      \<le> length (elems resp) \<longrightarrow>
      (\<exists>token err. FinalizeToken L s resp = Returns (token, err))) \<and>
   (length (elems resp)
      < go_max (AEAD_KeySize (suite (nameKey s))) (AEAD_NonceSize (suite (nameKey s))) \<and>
    (\<forall>prk. \<exists>cipher. AEAD_New (suite (nameKey s))
        (KDF_Expand (suite (nameKey s)) prk (ascii ''key'')
           (AEAD_KeySize (suite (nameKey s)))) = Inr cipher) \<longrightarrow>
      FinalizeToken L s resp = Panics)"
  using FinalizeToken_long_enough [of s resp L] FinalizeToken_too_short [of resp s L]
  by blast

theorem FinalizeToken_returns_iff_long_enough_witness:
  "go_max (AEAD_KeySize (suite (nameKey plain_state))) (AEAD_NonceSize (suite (nameKey plain_state)))
     = 16 \<and>
   (\<forall>prk. \<exists>cipher. AEAD_New (suite (nameKey plain_state))
       (KDF_Expand (suite (nameKey plain_state)) prk (ascii ''key'')
          (AEAD_KeySize (suite (nameKey plain_state)))) = Inr cipher) \<and>
   (\<exists>token err. FinalizeToken plain_library plain_state
       \<lparr>elems = replicate 16 42 @ [1, 1, 1, 1] @ replicate 16 42, spare = []\<rparr> =
       Returns (token, err)) \<and>
   FinalizeToken plain_library plain_state
     \<lparr>elems = replicate 15 42, spare = replicate 17 0\<rparr> = Panics"
proof -
  let ?st = "suite (nameKey plain_state)"
  let ?long = "\<lparr>elems = replicate 16 42 @ [1, 1, 1, 1] @ replicate 16 (42::byte), spare = []\<rparr>"
  let ?short = "\<lparr>elems = replicate 15 (42::byte), spare = replicate 17 0\<rparr>"
  have st: "?st = plain_suite"
    by (simp add: plain_state_def Public_def plain_issuer_def)
  have n: "go_max (AEAD_KeySize ?st) (AEAD_NonceSize ?st) = 16"
    by (simp add: st plain_suite_def go_max_def)
  have a: "\<forall>prk. \<exists>cipher. AEAD_New ?st
             (KDF_Expand ?st prk (ascii ''key'') (AEAD_KeySize ?st)) = Inr cipher"
    by (auto simp: st plain_suite_def ascii_def)
  have l: "go_max (AEAD_KeySize ?st) (AEAD_NonceSize ?st) \<le> length (elems ?long)"
    by (simp add: n)
  have s: "length (elems ?short) < go_max (AEAD_KeySize ?st) (AEAD_NonceSize ?st)"
    by (simp add: n)
  show ?thesis
    using n a l s
      FinalizeToken_returns_iff_long_enough [of plain_state ?long plain_library]
      FinalizeToken_returns_iff_long_enough [of plain_state ?short plain_library]
    by blast
qed

end
